theory Spec2Isabelle
  imports Main "HOL-Library.Word" "HOL-Library.Finite_Map"
begin

unbundle bit_operations_syntax

section \<open>Go values used by the consensus node\<close>

text \<open>
  The node is written in Go for a 64-bit platform: \<^verbatim>\<open>int\<close> is a 64-bit two's-complement
  integer, so \<^verbatim>\<open>latest.Index+1\<close> wraps around.  A Go \<^verbatim>\<open>string\<close> is a byte sequence and
  is modelled by \<^typ>\<open>string\<close>; a \<^verbatim>\<open>[]byte\<close> is a list of byte values.
\<close>

type_synonym go_int = "64 word"
type_synonym bytes = "nat list"

text \<open>\<^verbatim>\<open>%d\<close> of \<^verbatim>\<open>fmt.Sprintf\<close>: the signed decimal numeral.\<close>

fun digits :: "nat \<Rightarrow> string" where
  "digits n = (if n < 10 then [''0123456789'' ! n]
               else digits (n div 10) @ [''0123456789'' ! (n mod 10)])"

declare digits.simps [simp del]

definition fmt_d :: "go_int \<Rightarrow> string" where
  "fmt_d i = (if sint i < 0 then CHR ''-'' # digits (nat (- sint i)) else digits (nat (sint i)))"

text \<open>\<^verbatim>\<open>hex.EncodeToString\<close>: two lower-case hexadecimal digits per byte.\<close>

definition hex_EncodeToString :: "bytes \<Rightarrow> string" where
  "hex_EncodeToString bs =
     concat (map (\<lambda>b. [''0123456789abcdef'' ! (b div 16), ''0123456789abcdef'' ! (b mod 16)]) bs)"

text \<open>
  \<^verbatim>\<open>hex.DecodeString\<close>: an error (\<open>None\<close>) on a character that is no hexadecimal digit
  and on an odd length; both cases of the letters are accepted.
\<close>

definition fromHexChar :: "char \<Rightarrow> nat option" where
  "fromHexChar c = (let n = (of_char c :: nat) in
     if 48 \<le> n \<and> n \<le> 57 then Some (n - 48)
     else if 97 \<le> n \<and> n \<le> 102 then Some (n - 97 + 10)
     else if 65 \<le> n \<and> n \<le> 70 then Some (n - 65 + 10)
     else None)"

fun hex_DecodeString :: "string \<Rightarrow> bytes option" where
  "hex_DecodeString [] = Some []"
| "hex_DecodeString [c] = None"
| "hex_DecodeString (c # d # rest) =
     (case fromHexChar c of None \<Rightarrow> None
      | Some hi \<Rightarrow> (case fromHexChar d of None \<Rightarrow> None
      | Some lo \<Rightarrow> (case hex_DecodeString rest of None \<Rightarrow> None
      | Some bs \<Rightarrow> Some ((hi * 16 + lo) # bs))))"

section \<open>SHA-256 (\<^verbatim>\<open>crypto/sha256\<close>)\<close>

text \<open>
  \<^verbatim>\<open>sha256.Sum256\<close> is the digest of FIPS 180-4.  32-bit words are natural numbers below
  \<open>2 ^ 32\<close>, every addition reduced modulo \<open>2 ^ 32\<close>.  The message schedule is kept as a
  window of sixteen words that slides by one word per round.
\<close>

definition rotr :: "nat \<Rightarrow> nat \<Rightarrow> nat" where
  "rotr n x = x div 2 ^ n + (x mod 2 ^ n) * 2 ^ (32 - n)"

definition add32 :: "nat \<Rightarrow> nat \<Rightarrow> nat" where
  "add32 x y = (x + y) mod 4294967296"

definition ssig0 :: "nat \<Rightarrow> nat" where
  "ssig0 x = rotr 7 x XOR rotr 18 x XOR x div 2 ^ 3"

definition ssig1 :: "nat \<Rightarrow> nat" where
  "ssig1 x = rotr 17 x XOR rotr 19 x XOR x div 2 ^ 10"

definition bsig0 :: "nat \<Rightarrow> nat" where
  "bsig0 x = rotr 2 x XOR rotr 13 x XOR rotr 22 x"

definition bsig1 :: "nat \<Rightarrow> nat" where
  "bsig1 x = rotr 6 x XOR rotr 11 x XOR rotr 25 x"

definition ch :: "nat \<Rightarrow> nat \<Rightarrow> nat \<Rightarrow> nat" where
  "ch e f g = (e AND f) XOR ((e XOR 4294967295) AND g)"

definition maj :: "nat \<Rightarrow> nat \<Rightarrow> nat \<Rightarrow> nat" where
  "maj a b c = (a AND b) XOR (a AND c) XOR (b AND c)"

definition sha256_K :: "nat list" where
  "sha256_K =
    [0x428A2F98, 0x71374491, 0xB5C0FBCF, 0xE9B5DBA5, 0x3956C25B, 0x59F111F1, 0x923F82A4,
     0xAB1C5ED5, 0xD807AA98, 0x12835B01, 0x243185BE, 0x550C7DC3, 0x72BE5D74, 0x80DEB1FE,
     0x9BDC06A7, 0xC19BF174, 0xE49B69C1, 0xEFBE4786, 0x0FC19DC6, 0x240CA1CC, 0x2DE92C6F,
     0x4A7484AA, 0x5CB0A9DC, 0x76F988DA, 0x983E5152, 0xA831C66D, 0xB00327C8, 0xBF597FC7,
     0xC6E00BF3, 0xD5A79147, 0x06CA6351, 0x14292967, 0x27B70A85, 0x2E1B2138, 0x4D2C6DFC,
     0x53380D13, 0x650A7354, 0x766A0ABB, 0x81C2C92E, 0x92722C85, 0xA2BFE8A1, 0xA81A664B,
     0xC24B8B70, 0xC76C51A3, 0xD192E819, 0xD6990624, 0xF40E3585, 0x106AA070, 0x19A4C116,
     0x1E376C08, 0x2748774C, 0x34B0BCB5, 0x391C0CB3, 0x4ED8AA4A, 0x5B9CCA4F, 0x682E6FF3,
     0x748F82EE, 0x78A5636F, 0x84C87814, 0x8CC70208, 0x90BEFFFA, 0xA4506CEB, 0xBEF9A3F7,
     0xC67178F2]"

definition sha256_init :: "nat list" where
  "sha256_init =
    [0x6A09E667, 0xBB67AE85, 0x3C6EF372, 0xA54FF53A, 0x510E527F, 0x9B05688C, 0x1F83D9AB,
     0x5BE0CD19]"

fun next_window :: "nat list \<Rightarrow> nat list" where
  "next_window [w0, w1, w2, w3, w4, w5, w6, w7, w8, w9, w10, w11, w12, w13, w14, w15] =
     [w1, w2, w3, w4, w5, w6, w7, w8, w9, w10, w11, w12, w13, w14, w15,
      add32 (add32 (add32 (ssig1 w14) w9) (ssig0 w1)) w0]"
| "next_window ws = ws"

fun sha_round :: "nat list \<Rightarrow> nat \<Rightarrow> nat \<Rightarrow> nat list" where
  "sha_round [a, b, c, d, e, f, g, h] k w =
     (let t1 = add32 (add32 (add32 (add32 h (bsig1 e)) (ch e f g)) k) w;
          t2 = add32 (bsig0 a) (maj a b c)
      in [add32 t1 t2, a, b, c, add32 d t1, e, f, g])"
| "sha_round st k w = st"

fun sha_rounds :: "nat list \<Rightarrow> nat list \<Rightarrow> nat list \<Rightarrow> nat list" where
  "sha_rounds (k # ks) (w # ws) st = sha_rounds ks (next_window (w # ws)) (sha_round st k w)"
| "sha_rounds ks ws st = st"

definition compress :: "nat list \<Rightarrow> nat list \<Rightarrow> nat list" where
  "compress st blk = map2 add32 st (sha_rounds sha256_K blk st)"

definition sha256_pad :: "bytes \<Rightarrow> bytes" where
  "sha256_pad bs = (let l = length bs in
     bs @ [128] @ replicate ((119 - l mod 64) mod 64) 0 @
     map (\<lambda>i. (8 * l) div 256 ^ i mod 256) [7, 6, 5, 4, 3, 2, 1, 0])"

fun be_words :: "bytes \<Rightarrow> nat list" where
  "be_words (a # b # c # d # rest) = (((a * 256 + b) * 256 + c) * 256 + d) # be_words rest"
| "be_words bs = []"

fun chunks16 :: "nat list \<Rightarrow> nat list list" where
  "chunks16 [] = []"
| "chunks16 (w # ws) = take 16 (w # ws) # chunks16 (drop 16 (w # ws))"

definition sha256_blocks :: "bytes \<Rightarrow> nat list list" where
  "sha256_blocks bs = chunks16 (be_words (sha256_pad bs))"

definition word_bytes :: "nat \<Rightarrow> bytes" where
  "word_bytes w = [w div 16777216, w div 65536 mod 256, w div 256 mod 256, w mod 256]"

definition sha256_Sum256 :: "bytes \<Rightarrow> bytes" where
  "sha256_Sum256 bs = concat (map word_bytes (foldl compress sha256_init (sha256_blocks bs)))"

section \<open>Ledger store\<close>

record Block =
  PubKey :: string
  Signature :: string
  Index :: go_int
  Timestamp :: string
  Data :: string
  PrevHash :: string
  Hash :: string
  Nonce :: go_int

text \<open>
  The chain \<^verbatim>\<open>[]*Block\<close> is a list of blocks.  No method writes to a block after it has
  entered the chain, so the pointers are modelled by the blocks they point to; a
  \<^verbatim>\<open>nil\<close> entry is outside the model.  Each method of \<^verbatim>\<open>Blockchain\<close> runs under the
  chain's mutex and is one atomic transition from the chain before to the chain after;
  the mutex itself is not modelled.  In particular \<^verbatim>\<open>AddBlock\<close> holds the write lock
  while \<^verbatim>\<open>Latest\<close> asks for the read lock of the same \<^verbatim>\<open>sync.RWMutex\<close>, which Go
  does not grant to a goroutine that holds the write lock; the model follows the method
  bodies as sequential code and says nothing about the locks.
\<close>

definition calculateHash :: "Block \<Rightarrow> string" where
  "calculateHash b =
     hex_EncodeToString (sha256_Sum256 (map of_char
       (fmt_d (Index b) @ Timestamp b @ Data b @ PrevHash b @ fmt_d (Nonce b))))"

definition CreateGenesis :: "string \<Rightarrow> Block list \<Rightarrow> Block list" where
  "CreateGenesis now chain =
     (let gen = \<lparr>PubKey = [], Signature = [], Index = 0, Timestamp = now, Data = ''genesis'',
                 PrevHash = [], Hash = [], Nonce = 0\<rparr>
      in chain @ [gen\<lparr>Hash := calculateHash gen\<rparr>])"

definition Latest :: "Block list \<Rightarrow> Block option" where
  "Latest chain = (if length chain = 0 then None else Some (chain ! (length chain - 1)))"

definition AddBlock :: "Block list \<Rightarrow> Block \<Rightarrow> bool \<times> Block list" where
  "AddBlock chain b =
     (case Latest chain of
        Some latest \<Rightarrow>
          if Index b \<noteq> Index latest + 1 then (False, chain)
          else if PrevHash b \<noteq> Hash latest then (False, chain)
          else if calculateHash b \<noteq> Hash b then (False, chain)
          else (True, chain @ [b])
      | None \<Rightarrow> (True, chain @ [b]))"

text \<open>Proof of work: \<^verbatim>\<open>mine\<close> increments the nonce until the hash starts with
  \<^verbatim>\<open>difficulty\<close> zero digits.  The loop has no bound, so the model returns \<open>None\<close>
  when it never ends.\<close>

definition difficulty :: nat where
  "difficulty = 2"

primrec stringsRepeat :: "string \<Rightarrow> nat \<Rightarrow> string" where
  "stringsRepeat s 0 = []"
| "stringsRepeat s (Suc count) = stringsRepeat s count @ s"

partial_function (option) mine :: "Block \<Rightarrow> Block option" where
  "mine b =
     (let b1 = b\<lparr>Nonce := Nonce b + 1\<rparr>; h = calculateHash b1
      in if take difficulty h = stringsRepeat ''0'' difficulty then Some (b1\<lparr>Hash := h\<rparr>)
         else mine b1)"

definition GenerateBlock :: "Block list \<Rightarrow> string \<Rightarrow> string \<Rightarrow> Block option" where
  "GenerateBlock chain now data =
     (let (idx, prev) = (case Latest chain of None \<Rightarrow> (1, [])
                         | Some latest \<Rightarrow> (Index latest + 1, Hash latest))
      in mine \<lparr>PubKey = [], Signature = [], Index = idx, Timestamp = now, Data = data,
               PrevHash = prev, Hash = [], Nonce = 0\<rparr>)"

text \<open>The validation loop of \<^verbatim>\<open>ReplaceChain\<close>, from position \<open>i\<close> on: false as soon as
  a block does not link to its predecessor or does not carry its own hash.\<close>

function replace_loop :: "nat \<Rightarrow> Block list \<Rightarrow> bool" where
  "replace_loop i newChain =
     (if i < length newChain then
        (let prev = newChain ! (i - 1); curr = newChain ! i
         in if PrevHash curr \<noteq> Hash prev \<or> calculateHash curr \<noteq> Hash curr then False
            else replace_loop (i + 1) newChain)
      else True)"
  by pat_completeness auto
termination
  by (relation "measure (\<lambda>(i, newChain). length newChain - i)") auto

declare replace_loop.simps [simp del]

definition ReplaceChain :: "Block list \<Rightarrow> Block list \<Rightarrow> bool \<times> Block list" where
  "ReplaceChain chain newChain =
     (if length newChain \<le> length chain then (False, chain)
      else if \<not> replace_loop 1 newChain then (False, chain)
      else (True, newChain))"

text \<open>
  Persistence.  \<^verbatim>\<open>LoadFromFile\<close> reads and decodes the file, which the model receives
  as the outcome of \<^verbatim>\<open>ioutil.ReadFile\<close> and \<^verbatim>\<open>json.Unmarshal\<close>; the loop returns the
  first position that fails validation.
\<close>

datatype file_content = ReadFileFails | UnmarshalFails | Decoded "Block list"

datatype error = ReadFileError | UnmarshalError | Errorf string

function load_loop :: "nat \<Rightarrow> Block list \<Rightarrow> error option" where
  "load_loop i arr =
     (if i < length arr then
        (let prev = arr ! (i - 1); curr = arr ! i
         in if PrevHash curr \<noteq> Hash prev \<or> calculateHash curr \<noteq> Hash curr
            then Some (Errorf (''invalid chain at index '' @ digits i))
            else load_loop (i + 1) arr)
      else None)"
  by pat_completeness auto
termination
  by (relation "measure (\<lambda>(i, arr). length arr - i)") auto

declare load_loop.simps [simp del]

definition LoadFromFile :: "Block list \<Rightarrow> file_content \<Rightarrow> error option \<times> Block list" where
  "LoadFromFile chain f =
     (case f of
        ReadFileFails \<Rightarrow> (Some ReadFileError, chain)
      | UnmarshalFails \<Rightarrow> (Some UnmarshalError, chain)
      | Decoded arr \<Rightarrow>
          if length arr = 0 then (Some (Errorf ''empty chain''), chain)
          else (case load_loop 1 arr of
                  Some err \<Rightarrow> (Some err, chain)
                | None \<Rightarrow> (None, arr)))"

text \<open>The blocks of the worked scenario: a genesis block and four blocks as \<^verbatim>\<open>mine\<close>
  seals them, one over the other, for the payloads \<^verbatim>\<open>hello\<close>, \<^verbatim>\<open>world\<close>,
  \<^verbatim>\<open>pay 10\<close> and \<^verbatim>\<open>done\<close>.\<close>

definition genesis0 :: Block where
  "genesis0 = \<lparr>PubKey = [], Signature = [], Index = 0, Timestamp = ''2024-01-01T00:00:00Z'',
     Data = ''genesis'', PrevHash = [],
     Hash = ''9f997a22f6f3e03fd77ef4b68bf58e59b0224dccb4b24e5aa074be50cec8b31d'', Nonce = 0\<rparr>"

definition block1 :: Block where
  "block1 = \<lparr>PubKey = [], Signature = [], Index = 1, Timestamp = ''2024-01-01T00:15:26Z'',
     Data = ''hello'',
     PrevHash = ''9f997a22f6f3e03fd77ef4b68bf58e59b0224dccb4b24e5aa074be50cec8b31d'',
     Hash = ''008e3541ab0076e91cc17c96059623427bc9385d086499bdcb37d5f247ae151f'', Nonce = 1\<rparr>"

definition block2 :: Block where
  "block2 = \<lparr>PubKey = [], Signature = [], Index = 2, Timestamp = ''2024-01-01T00:18:20Z'',
     Data = ''world'',
     PrevHash = ''008e3541ab0076e91cc17c96059623427bc9385d086499bdcb37d5f247ae151f'',
     Hash = ''0060d725e17a61720cb885e44dadd48211c0e8ed0cb6c6abb0063cd80ff51b07'', Nonce = 1\<rparr>"

definition block3 :: Block where
  "block3 = \<lparr>PubKey = [], Signature = [], Index = 3, Timestamp = ''2024-01-01T00:19:29Z'',
     Data = ''pay 10'',
     PrevHash = ''0060d725e17a61720cb885e44dadd48211c0e8ed0cb6c6abb0063cd80ff51b07'',
     Hash = ''00edec20e31629c76e16bf90b4bb42b77aff82728a9543a355085bfad427c436'', Nonce = 1\<rparr>"

definition block4 :: Block where
  "block4 = \<lparr>PubKey = [], Signature = [], Index = 4, Timestamp = ''2024-01-01T00:27:54Z'',
     Data = ''done'',
     PrevHash = ''00edec20e31629c76e16bf90b4bb42b77aff82728a9543a355085bfad427c436'',
     Hash = ''000d8f345b1a0e49ccce7d43369e9ce53a6fda0352739d7d142a7abd391bc0a1'', Nonce = 1\<rparr>"

section \<open>Identity: block signatures\<close>

text \<open>
  \<^verbatim>\<open>crypto/ed25519\<close> is not part of the repository.  Its three operations are the fields
  of a record that the node's functions take as a parameter; what the node relies on
  without calling the curve arithmetic, the panic of \<^verbatim>\<open>ed25519.Verify\<close> on a public key
  that is not 32 bytes long, is written out.
\<close>

record ed25519 =
  Verify :: "bytes \<Rightarrow> bytes \<Rightarrow> bytes \<Rightarrow> bool"
  Sign :: "bytes \<Rightarrow> bytes \<Rightarrow> bytes"
  NewKeyFromSeed :: "bytes \<Rightarrow> bytes"

datatype panic = Panic string

definition ed25519_Verify :: "ed25519 \<Rightarrow> bytes \<Rightarrow> bytes \<Rightarrow> bytes \<Rightarrow> panic + bool" where
  "ed25519_Verify ed publicKey message sig =
     (if length publicKey \<noteq> 32
      then Inl (Panic (''ed25519: bad public key length: '' @ digits (length publicKey)))
      else Inr (Verify ed publicKey message sig))"

definition VerifyBlockSignature :: "ed25519 \<Rightarrow> Block \<Rightarrow> panic + bool" where
  "VerifyBlockSignature ed b =
     (if Signature b = [] \<or> PubKey b = [] then Inr False
      else (case hex_DecodeString (PubKey b) of
              None \<Rightarrow> Inr False
            | Some pub \<Rightarrow>
                (case hex_DecodeString (Signature b) of
                   None \<Rightarrow> Inr False
                 | Some sig \<Rightarrow> ed25519_Verify ed pub (map of_char (calculateHash b)) sig)))"

section \<open>Transport and gossip: a block from a peer\<close>

text \<open>
  What a handler does besides changing the chain is returned as a list of effects.  Log
  lines are left out, except the lines that declare a sequence or a block committed.
\<close>

record PrepareMsg =
  pView :: go_int
  pSeq :: go_int
  pHash :: string
  pVoter :: string
  pSig :: string

record CommitMsg =
  cView :: go_int
  cSeq :: go_int
  cHash :: string
  cVoter :: string
  cSig :: string

datatype effect =
    BroadcastBlock Block
  | PostBlockToAI Block
  | SendRequestChain
  | PostCommit CommitMsg
  | BridgeCommitBlock string
  | LogCommitted go_int nat nat
  | LogBlockCommitted string nat nat

text \<open>The case \<^verbatim>\<open>"block"\<close> of \<^verbatim>\<open>handleConn\<close>, for the decoded block \<open>b\<close>.  The
  \<^verbatim>\<open>else\<close> belongs to the inner \<^verbatim>\<open>if\<close>: a chain request is sent when the signature
  verifies and \<^verbatim>\<open>AddBlock\<close> refuses.  A panic ends the process.\<close>

definition handleConn_block ::
    "ed25519 \<Rightarrow> Block list \<Rightarrow> Block \<Rightarrow> panic + (Block list \<times> effect list)" where
  "handleConn_block ed chain b =
     (case VerifyBlockSignature ed b of
        Inl p \<Rightarrow> Inl p
      | Inr verified \<Rightarrow>
          if verified then
            (case AddBlock chain b of
               (True, chain') \<Rightarrow> Inr (chain', [PostBlockToAI b, BroadcastBlock b])
             | (False, chain') \<Rightarrow> Inr (chain', [SendRequestChain]))
          else Inr (chain, []))"

text \<open>One message of the gossip subscription \<^verbatim>\<open>handleBlockMessages\<close>, decoded to \<open>b\<close>
  and not sent by the node itself.\<close>

definition handleBlockMessages_block ::
    "ed25519 \<Rightarrow> Block list \<Rightarrow> Block \<Rightarrow> panic + (Block list \<times> effect list)" where
  "handleBlockMessages_block ed chain b =
     (case VerifyBlockSignature ed b of
        Inl p \<Rightarrow> Inl p
      | Inr verified \<Rightarrow>
          if verified then
            (case AddBlock chain b of
               (True, chain') \<Rightarrow> Inr (chain', [PostBlockToAI b])
             | (False, chain') \<Rightarrow> Inr (chain', []))
          else Inr (chain, []))"

section \<open>Agreement: prepare and commit votes\<close>

text \<open>
  What the handlers read from the node and its files: the port, the keys of the peer map
  (as \<^verbatim>\<open>getPeerList\<close> returns them), the list that \<^verbatim>\<open>json.Unmarshal\<close> leaves when
  \<^verbatim>\<open>validators.json\<close> can be read (\<open>None\<close> when it cannot), and the contents of
  \<^verbatim>\<open>keys/node_priv.hex\<close> with the surrounding white space trimmed (\<open>None\<close> when it
  cannot be read).
\<close>

record node =
  Port :: string
  peers :: "string list"
  validators_json :: "string list option"
  node_priv_hex :: "string option"

definition getPeerList :: "node \<Rightarrow> string list" where
  "getPeerList n = peers n"

definition getValidatorList :: "node \<Rightarrow> string list" where
  "getValidatorList n =
     (case validators_json n of
        Some out \<Rightarrow> if length out > 0 then out else getPeerList n
      | None \<Rightarrow> getPeerList n)"

definition signMessage :: "ed25519 \<Rightarrow> node \<Rightarrow> string \<Rightarrow> string" where
  "signMessage ed n msg =
     (case node_priv_hex n of
        None \<Rightarrow> []
      | Some privHex \<Rightarrow>
          (case hex_DecodeString privHex of
             None \<Rightarrow> []
           | Some privb \<Rightarrow>
               if length privb = 64 then hex_EncodeToString (Sign ed privb (map of_char msg))
               else if length privb = 32
               then hex_EncodeToString (Sign ed (NewKeyFromSeed ed privb) (map of_char msg))
               else []))"

text \<open>The string that is signed for a vote: \<^verbatim>\<open>fmt.Sprintf("%s:%d:%d", hash, seq, view)\<close>.\<close>

definition vote_string :: "string \<Rightarrow> go_int \<Rightarrow> go_int \<Rightarrow> string" where
  "vote_string h seq view = h @ '':'' @ fmt_d seq @ '':'' @ fmt_d view"

text \<open>
  The vote tables \<^verbatim>\<open>prepares\<close> and \<^verbatim>\<open>commits\<close>: sequence number to voter to message.
  Reading a sequence number that has no entry gives the \<^verbatim>\<open>nil\<close> map, which has no
  voters.
\<close>

record pbft =
  prepares :: "(go_int, (string, PrepareMsg) fmap) fmap"
  commits :: "(go_int, (string, CommitMsg) fmap) fmap"

definition votes_at :: "(go_int, (string, 'm) fmap) fmap \<Rightarrow> go_int \<Rightarrow> (string, 'm) fmap" where
  "votes_at table seq = (case fmlookup table seq of None \<Rightarrow> fmempty | Some votes \<Rightarrow> votes)"

definition len :: "(string, 'm) fmap \<Rightarrow> nat" where
  "len votes = fcard (fmdom votes)"

datatype http_response = Ok_true | Ok_votes nat | Http_Error nat string

definition HandlePBFTPrepare ::
    "ed25519 \<Rightarrow> node \<Rightarrow> pbft \<Rightarrow> PrepareMsg option \<Rightarrow> pbft \<times> http_response \<times> effect list" where
  "HandlePBFTPrepare ed n st body =
     (case body of
        None \<Rightarrow> (st, Http_Error 400 ''invalid'', [])
      | Some pm \<Rightarrow>
          (let st1 = st\<lparr>prepares :=
                 fmupd (pSeq pm) (fmupd (pVoter pm) pm (votes_at (prepares st) (pSeq pm)))
                   (prepares st)\<rparr>;
               cnt = len (votes_at (prepares st1) (pSeq pm));
               val = getValidatorList n;
               need = (2 * length val) div 3 + 1
           in if cnt \<ge> need then
                (let cm = \<lparr>cView = pView pm, cSeq = pSeq pm, cHash = pHash pm,
                           cVoter = '':'' @ Port n,
                           cSig = signMessage ed n (vote_string (pHash pm) (pSeq pm) (pView pm))\<rparr>
                 in (st1, Ok_true, map (\<lambda>v. PostCommit cm) val))
              else (st1, Ok_true, [])))"

definition HandlePBFTCommit ::
    "node \<Rightarrow> pbft \<Rightarrow> CommitMsg option \<Rightarrow> pbft \<times> http_response \<times> effect list" where
  "HandlePBFTCommit n st body =
     (case body of
        None \<Rightarrow> (st, Http_Error 400 ''invalid'', [])
      | Some cm \<Rightarrow>
          (let st1 = st\<lparr>commits :=
                 fmupd (cSeq cm) (fmupd (cVoter cm) cm (votes_at (commits st) (cSeq cm)))
                   (commits st)\<rparr>;
               cnt = len (votes_at (commits st1) (cSeq cm));
               val = getValidatorList n;
               need = (2 * length val) div 3 + 1
           in if cnt \<ge> need then
                (st1, Ok_true, [BridgeCommitBlock (cHash cm), LogCommitted (cSeq cm) cnt (length val)])
              else (st1, Ok_true, [])))"

text \<open>
  The older vote endpoint \<^verbatim>\<open>HandleVote\<close> keeps its own table \<^verbatim>\<open>votesMap\<close>, block hash
  to voter to vote.  It verifies the signature of a vote over
  \<^verbatim>\<open>fmt.Sprintf("%s:%d", hash, round)\<close> before it stores the vote.
\<close>

record Vote =
  vBlockHash :: string
  vVoterPub :: string
  vSignature :: string
  vRound :: go_int

definition HandleVote ::
    "ed25519 \<Rightarrow> node \<Rightarrow> (string, (string, Vote) fmap) fmap \<Rightarrow> Vote option \<Rightarrow>
     panic + ((string, (string, Vote) fmap) fmap \<times> http_response \<times> effect list)" where
  "HandleVote ed n votesMap body =
     (case body of
        None \<Rightarrow> Inr (votesMap, Http_Error 400 ''invalid vote'', [])
      | Some v \<Rightarrow>
          (case hex_DecodeString (vVoterPub v) of
             None \<Rightarrow> Inr (votesMap, Http_Error 400 ''bad pub'', [])
           | Some pubb \<Rightarrow>
               (case hex_DecodeString (vSignature v) of
                  None \<Rightarrow> Inr (votesMap, Http_Error 400 ''bad sig'', [])
                | Some sigb \<Rightarrow>
                    (case ed25519_Verify ed pubb
                            (map of_char (vBlockHash v @ '':'' @ fmt_d (vRound v))) sigb of
                       Inl p \<Rightarrow> Inl p
                     | Inr verified \<Rightarrow>
                         if \<not> verified
                         then Inr (votesMap, Http_Error 400 ''invalid signature'', [])
                         else
                           (let votes = (case fmlookup votesMap (vBlockHash v) of
                                           None \<Rightarrow> fmempty | Some vs \<Rightarrow> vs);
                                votesMap1 = fmupd (vBlockHash v) (fmupd (vVoterPub v) v votes)
                                              votesMap;
                                validators = getValidatorList n;
                                needed = (2 * length validators) div 3 + 1;
                                count = len (fmupd (vVoterPub v) v votes)
                            in Inr (votesMap1, Ok_votes count,
                                    if count \<ge> needed
                                    then [LogBlockCommitted (vBlockHash v) count
                                            (length validators)]
                                    else []))))))"

section \<open>Chains of a node\<close>

text \<open>
  The chains a node can hold: \<^verbatim>\<open>NewNode\<close> creates the genesis block on the empty chain,
  and from there the chain changes through \<^verbatim>\<open>AddBlock\<close>, \<^verbatim>\<open>ReplaceChain\<close> and
  \<^verbatim>\<open>LoadFromFile\<close> only.
\<close>

inductive node_chain :: "Block list \<Rightarrow> bool" where
  genesis: "node_chain (CreateGenesis now [])"
| add: "node_chain chain \<Longrightarrow> AddBlock chain b = (ok, chain') \<Longrightarrow> node_chain chain'"
| replace: "node_chain chain \<Longrightarrow> ReplaceChain chain newChain = (ok, chain') \<Longrightarrow> node_chain chain'"
| load: "node_chain chain \<Longrightarrow> LoadFromFile chain f = (err, chain') \<Longrightarrow> node_chain chain'"

section \<open>Worked scenarios\<close>

text \<open>
  A stand-in for the signature scheme, to run the handlers on concrete messages: a
  signature is valid when it is the public key written twice.  \<open>signed1\<close> is \<open>block1\<close>
  with a public key of 32 bytes and a signature that the stand-in accepts.
\<close>

definition stand_in :: ed25519 where
  "stand_in = \<lparr>Verify = (\<lambda>pub msg sig. sig = pub @ pub), Sign = (\<lambda>priv msg. take 32 priv @ take 32 priv),
     NewKeyFromSeed = (\<lambda>seed. seed @ seed)\<rparr>"

definition signed1 :: Block where
  "signed1 = block1\<lparr>
     PubKey := ''0101010101010101010101010101010101010101010101010101010101010101'',
     Signature := ''01010101010101010101010101010101010101010101010101010101010101010101010101010101010101010101010101010101010101010101010101010101''\<rparr>"

text \<open>
  A node with a roster of four validators (quorum 3) and a node with a roster of one
  (quorum 1), neither with a signing key; votes at view 0 and sequence 1 that carry no
  signature; the empty vote tables; and the tables after a list of votes has been handled.
\<close>

definition roster4 :: node where
  "roster4 = \<lparr>Port = ''8080'', peers = [], validators_json = Some [''v1'', ''v2'', ''v3'', ''v4''],
     node_priv_hex = None\<rparr>"

definition prepare_vote :: "string \<Rightarrow> string \<Rightarrow> PrepareMsg" where
  "prepare_vote voter h = \<lparr>pView = 0, pSeq = 1, pHash = h, pVoter = voter, pSig = []\<rparr>"

definition pbft0 :: pbft where
  "pbft0 = \<lparr>prepares = fmempty, commits = fmempty\<rparr>"

definition commit_vote :: "string \<Rightarrow> string \<Rightarrow> CommitMsg" where
  "commit_vote voter h = \<lparr>cView = 0, cSeq = 1, cHash = h, cVoter = voter, cSig = []\<rparr>"

definition solo :: node where
  "solo = \<lparr>Port = ''8080'', peers = [], validators_json = Some [''v1''], node_priv_hex = None\<rparr>"

definition after_prepares :: "ed25519 \<Rightarrow> node \<Rightarrow> pbft \<Rightarrow> PrepareMsg list \<Rightarrow> pbft" where
  "after_prepares ed n st msgs = foldl (\<lambda>s m. fst (HandlePBFTPrepare ed n s (Some m))) st msgs"

definition after_commits :: "node \<Rightarrow> pbft \<Rightarrow> CommitMsg list \<Rightarrow> pbft" where
  "after_commits n st msgs = foldl (\<lambda>s m. fst (HandlePBFTCommit n s (Some m))) st msgs"

section \<open>Properties of the ledger store\<close>

lemma Latest_nonempty: "chain \<noteq> [] \<Longrightarrow> Latest chain = Some (last chain)"
  by (simp add: Latest_def last_conv_nth)

lemma Latest_empty: "Latest [] = None"
  by (simp add: Latest_def)

subsection \<open>The length of a hash\<close>

text \<open>A block's hash has 64 hexadecimal digits, so the slice \<^verbatim>\<open>h[:difficulty]\<close> that
  \<^verbatim>\<open>mine\<close> takes is in range.\<close>

lemma length_sha_round: "length (sha_round st k w) = length st"
  by (induction st k w rule: sha_round.induct) (simp_all add: Let_def)

lemma length_sha_rounds: "length (sha_rounds ks ws st) = length st"
  by (induction ks ws st rule: sha_rounds.induct) (simp_all add: length_sha_round)

lemma length_compress: "length (compress st blk) = length st"
  by (simp add: compress_def length_sha_rounds)

lemma length_foldl_compress: "length (foldl compress st blks) = length st"
  by (induction blks arbitrary: st) (simp_all add: length_compress)

lemma length_sha256_Sum256: "length (sha256_Sum256 bs) = 32"
  by (simp add: sha256_Sum256_def length_concat comp_def word_bytes_def sum_list_triv
      length_foldl_compress sha256_init_def)

lemma length_hex_EncodeToString: "length (hex_EncodeToString bs) = 2 * length bs"
  by (simp add: hex_EncodeToString_def length_concat comp_def sum_list_triv)

lemma length_calculateHash: "length (calculateHash b) = 64"
  by (simp add: calculateHash_def length_hex_EncodeToString length_sha256_Sum256)

subsection \<open>Digests of the scenario's blocks\<close>

lemma replicate_numeral_Cons: "replicate (numeral k) x = x # replicate (pred_numeral k) x"
  by (simp add: numeral_eq_Suc)

lemmas sha_eval = compress_def sha256_K_def sha256_init_def add32_def ssig0_def ssig1_def
  bsig0_def bsig1_def ch_def maj_def rotr_def Let_def

lemma genesis0_blocks:
  "sha256_blocks (map of_char ''02024-01-01T00:00:00Zgenesis0'') =
     [[808595506, 875376689, 758133076, 808466992, 809119792, 1516725614, 1702062451,
     813694976, 0, 0, 0, 0, 0, 0, 0, 232]]"
  by (simp add: sha256_blocks_def sha256_pad_def replicate_numeral_Cons)

lemma genesis0_compress1:
  "compress sha256_init
     [808595506, 875376689, 758133076, 808466992, 809119792, 1516725614, 1702062451,
     813694976, 0, 0, 0, 0, 0, 0, 0, 232] =
     [2677635618, 4143177791, 3615421622, 2348125785, 2955038156, 3031584346, 2692005456,
     3469259549]"
  by (simp add: sha_eval)

lemma genesis0_digest:
  "hex_EncodeToString (sha256_Sum256 (map of_char ''02024-01-01T00:00:00Zgenesis0'')) =
     ''9f997a22f6f3e03fd77ef4b68bf58e59b0224dccb4b24e5aa074be50cec8b31d''"
  unfolding sha256_Sum256_def genesis0_blocks
  by (simp only: foldl_Cons foldl_Nil genesis0_compress1) (simp add: word_bytes_def hex_EncodeToString_def)

lemma block1_blocks:
  "sha256_blocks (map of_char ''12024-01-01T00:15:26Zhello9f997a22f6f3e03fd77ef4b68bf58e59b0224dccb4b24e5aa074be50cec8b31d1'') =
     [[825372722, 875376689, 758133076, 808466993, 893006390, 1516791148, 1819228518,
     960051041, 842163766, 1714644272, 862348343, 929392180, 1647720546, 1714763877,
     892953136, 842151012], [1667457588, 1647457381, 895574320, 926179941, 892363621,
     1664639539, 828649856, 0, 0, 0, 0, 0, 0, 0, 0, 728]]"
  by (simp add: sha256_blocks_def sha256_pad_def replicate_numeral_Cons)

lemma block1_compress1:
  "compress sha256_init
     [825372722, 875376689, 758133076, 808466993, 893006390, 1516791148, 1819228518,
     960051041, 842163766, 1714644272, 862348343, 929392180, 1647720546, 1714763877,
     892953136, 842151012] =
     [3165451071, 12257422, 530030790, 3171690601, 3458817469, 596368697, 3447774736,
     626571993]"
  by (simp add: sha_eval)

lemma block1_compress2:
  "compress [3165451071, 12257422, 530030790, 3171690601, 3458817469, 596368697, 3447774736,
     626571993]
     [1667457588, 1647457381, 895574320, 926179941, 892363621, 1664639539, 828649856, 0, 0,
     0, 0, 0, 0, 0, 0, 728] =
     [9319745, 2868934377, 482442390, 93725506, 2076784733, 140810685, 3409434098,
     1202591007]"
  by (simp add: sha_eval)

lemma block1_digest:
  "hex_EncodeToString (sha256_Sum256 (map of_char ''12024-01-01T00:15:26Zhello9f997a22f6f3e03fd77ef4b68bf58e59b0224dccb4b24e5aa074be50cec8b31d1'')) =
     ''008e3541ab0076e91cc17c96059623427bc9385d086499bdcb37d5f247ae151f''"
  unfolding sha256_Sum256_def block1_blocks
  by (simp only: foldl_Cons foldl_Nil block1_compress1 block1_compress2) (simp add: word_bytes_def hex_EncodeToString_def)

lemma altered1_blocks:
  "sha256_blocks (map of_char ''12024-01-01T00:15:26Zhellp9f997a22f6f3e03fd77ef4b68bf58e59b0224dccb4b24e5aa074be50cec8b31d1'') =
     [[825372722, 875376689, 758133076, 808466993, 893006390, 1516791148, 1819294054,
     960051041, 842163766, 1714644272, 862348343, 929392180, 1647720546, 1714763877,
     892953136, 842151012], [1667457588, 1647457381, 895574320, 926179941, 892363621,
     1664639539, 828649856, 0, 0, 0, 0, 0, 0, 0, 0, 728]]"
  by (simp add: sha256_blocks_def sha256_pad_def replicate_numeral_Cons)

lemma altered1_compress1:
  "compress sha256_init
     [825372722, 875376689, 758133076, 808466993, 893006390, 1516791148, 1819294054,
     960051041, 842163766, 1714644272, 862348343, 929392180, 1647720546, 1714763877,
     892953136, 842151012] =
     [3182001428, 2252409006, 2686114297, 1721774564, 797401983, 1285701912, 6237172,
     3954885623]"
  by (simp add: sha_eval)

lemma altered1_compress2:
  "compress [3182001428, 2252409006, 2686114297, 1721774564, 797401983, 1285701912, 6237172,
     3954885623]
     [1667457588, 1647457381, 895574320, 926179941, 892363621, 1664639539, 828649856, 0, 0,
     0, 0, 0, 0, 0, 0, 728] =
     [2377009878, 2975289961, 515691518, 799300325, 3789447324, 3715379405, 2442233187,
     1515667871]"
  by (simp add: sha_eval)

lemma altered1_digest:
  "hex_EncodeToString (sha256_Sum256 (map of_char ''12024-01-01T00:15:26Zhellp9f997a22f6f3e03fd77ef4b68bf58e59b0224dccb4b24e5aa074be50cec8b31d1'')) =
     ''8dae4ad6b15752691ebcd3fe2fa45ae5e1de609cdd7430cd919185635a57419f''"
  unfolding sha256_Sum256_def altered1_blocks
  by (simp only: foldl_Cons foldl_Nil altered1_compress1 altered1_compress2) (simp add: word_bytes_def hex_EncodeToString_def)

lemma index7_blocks:
  "sha256_blocks (map of_char ''72024-01-01T00:15:26Zhello9f997a22f6f3e03fd77ef4b68bf58e59b0224dccb4b24e5aa074be50cec8b31d1'') =
     [[926036018, 875376689, 758133076, 808466993, 893006390, 1516791148, 1819228518,
     960051041, 842163766, 1714644272, 862348343, 929392180, 1647720546, 1714763877,
     892953136, 842151012], [1667457588, 1647457381, 895574320, 926179941, 892363621,
     1664639539, 828649856, 0, 0, 0, 0, 0, 0, 0, 0, 728]]"
  by (simp add: sha256_blocks_def sha256_pad_def replicate_numeral_Cons)

lemma index7_compress1:
  "compress sha256_init
     [926036018, 875376689, 758133076, 808466993, 893006390, 1516791148, 1819228518,
     960051041, 842163766, 1714644272, 862348343, 929392180, 1647720546, 1714763877,
     892953136, 842151012] =
     [4029095834, 2715985265, 978247269, 2173660640, 1818989403, 4281352622, 198866265,
     3912153861]"
  by (simp add: sha_eval)

lemma index7_compress2:
  "compress [4029095834, 2715985265, 978247269, 2173660640, 1818989403, 4281352622, 198866265,
     3912153861]
     [1667457588, 1647457381, 895574320, 926179941, 892363621, 1664639539, 828649856, 0, 0,
     0, 0, 0, 0, 0, 0, 728] =
     [684035644, 315677103, 1332527900, 2402185710, 3296847332, 123465858, 1482416463,
     3698885661]"
  by (simp add: sha_eval)

lemma index7_digest:
  "hex_EncodeToString (sha256_Sum256 (map of_char ''72024-01-01T00:15:26Zhello9f997a22f6f3e03fd77ef4b68bf58e59b0224dccb4b24e5aa074be50cec8b31d1'')) =
     ''28c58e3c12d0d9af4f6cc31c8f2e71eec481e5e4075bf082585be14fdc78841d''"
  unfolding sha256_Sum256_def index7_blocks
  by (simp only: foldl_Cons foldl_Nil index7_compress1 index7_compress2) (simp add: word_bytes_def hex_EncodeToString_def)


lemma block2_blocks:
  "sha256_blocks (map of_char ''22024-01-01T00:18:20Zworld008e3541ab0076e91cc17c96059623427bc9385d086499bdcb37d5f247ae151f1'') =
     [[842149938, 875376689, 758133076, 808466993, 943338032, 1517776754, 1818505264,
     946156341, 875651426, 808466230, 1698247011, 1664169827, 959852597, 959853107,
     875706210, 1664693048], [895758392, 909392185, 1650746210, 859268149, 1714566199,
     1634021685, 828780928, 0, 0, 0, 0, 0, 0, 0, 0, 728]]"
  by (simp add: sha256_blocks_def sha256_pad_def replicate_numeral_Cons)

lemma block2_compress1:
  "compress sha256_init
     [842149938, 875376689, 758133076, 808466993, 943338032, 1517776754, 1818505264,
     946156341, 875651426, 808466230, 1698247011, 1664169827, 959852597, 959853107,
     875706210, 1664693048] =
     [1450909583, 1968103354, 1320687872, 525495290, 3556738206, 834558552, 237608018,
     3086820286]"
  by (simp add: sha_eval)

lemma block2_compress2:
  "compress [1450909583, 1968103354, 1320687872, 525495290, 3556738206, 834558552, 237608018,
     3086820286]
     [895758392, 909392185, 1650746210, 859268149, 1714566199, 1634021685, 828780928, 0, 0,
     0, 0, 0, 0, 0, 0, 728] =
     [6346533, 3782893938, 213419492, 1303237762, 297855213, 213305003, 2953198808,
     267721479]"
  by (simp add: sha_eval)

lemma block2_digest:
  "hex_EncodeToString (sha256_Sum256 (map of_char ''22024-01-01T00:18:20Zworld008e3541ab0076e91cc17c96059623427bc9385d086499bdcb37d5f247ae151f1'')) =
     ''0060d725e17a61720cb885e44dadd48211c0e8ed0cb6c6abb0063cd80ff51b07''"
  unfolding sha256_Sum256_def block2_blocks
  by (simp only: foldl_Cons foldl_Nil block2_compress1 block2_compress2) (simp add: word_bytes_def hex_EncodeToString_def)


lemma block3_blocks:
  "sha256_blocks (map of_char ''32024-01-01T00:19:29Zpay 100060d725e17a61720cb885e44dadd48211c0e8ed0cb6c6abb0063cd80ff51b071'') =
     [[858927154, 875376689, 758133076, 808466993, 960115257, 1517314425, 540094512,
     808857700, 926037349, 825712950, 825700912, 1667381304, 895824948, 1684104292,
     876098097, 828584037], [946168880, 1667380835, 912351842, 808465971, 1667512368,
     1717974321, 1647327025, 2147483648, 0, 0, 0, 0, 0, 0, 0, 736]]"
  by (simp add: sha256_blocks_def sha256_pad_def replicate_numeral_Cons)

lemma block3_compress1:
  "compress sha256_init
     [858927154, 875376689, 758133076, 808466993, 960115257, 1517314425, 540094512,
     808857700, 926037349, 825712950, 825700912, 1667381304, 895824948, 1684104292,
     876098097, 828584037] =
     [3591569012, 4086072579, 495155090, 4191680529, 3219671601, 3313836029, 2137950482,
     2857041936]"
  by (simp add: sha_eval)

lemma block3_compress2:
  "compress [3591569012, 4086072579, 495155090, 4191680529, 3219671601, 3313836029, 2137950482,
     2857041936]
     [946168880, 1667380835, 912351842, 808465971, 1667512368, 1717974321, 1647327025,
     2147483648, 0, 0, 0, 0, 0, 0, 0, 736] =
     [15592480, 3809880519, 1846984592, 3032171191, 2063565426, 2325037987, 1426611194,
     3559375926]"
  by (simp add: sha_eval)

lemma block3_digest:
  "hex_EncodeToString (sha256_Sum256 (map of_char ''32024-01-01T00:19:29Zpay 100060d725e17a61720cb885e44dadd48211c0e8ed0cb6c6abb0063cd80ff51b071'')) =
     ''00edec20e31629c76e16bf90b4bb42b77aff82728a9543a355085bfad427c436''"
  unfolding sha256_Sum256_def block3_blocks
  by (simp only: foldl_Cons foldl_Nil block3_compress1 block3_compress2) (simp add: word_bytes_def hex_EncodeToString_def)


lemma block4_blocks:
  "sha256_blocks (map of_char ''42024-01-01T00:27:54Zdone00edec20e31629c76e16bf90b4bb42b77aff82728a9543a355085bfad427c4361'') =
     [[875704370, 875376689, 758133076, 808466994, 926561588, 1516531566, 1697656933,
     1684366130, 811938609, 909261155, 926311729, 912418361, 811742306, 1647587938,
     926376294, 1714958903], [842555705, 892613473, 859125040, 943022694, 1633956914,
     929248307, 909213696, 0, 0, 0, 0, 0, 0, 0, 0, 720]]"
  by (simp add: sha256_blocks_def sha256_pad_def replicate_numeral_Cons)

lemma block4_compress1:
  "compress sha256_init
     [875704370, 875376689, 758133076, 808466994, 926561588, 1516531566, 1697656933,
     1684366130, 811938609, 909261155, 926311729, 912418361, 811742306, 1647587938,
     926376294, 1714958903] =
     [2791820819, 487431673, 1514862562, 4033026065, 1766308416, 1230505339, 2453034879,
     2551983209]"
  by (simp add: sha_eval)

lemma block4_compress2:
  "compress [2791820819, 487431673, 1514862562, 4033026065, 1766308416, 1230505339, 2453034879,
     2551983209]
     [842555705, 892613473, 859125040, 943022694, 1633956914, 929248307, 909213696, 0, 0, 0,
     0, 0, 0, 0, 0, 720] =
     [888628, 1528434249, 3436084547, 916364517, 980408835, 1383308669, 338328253, 958120097]"
  by (simp add: sha_eval)

lemma block4_digest:
  "hex_EncodeToString (sha256_Sum256 (map of_char ''42024-01-01T00:27:54Zdone00edec20e31629c76e16bf90b4bb42b77aff82728a9543a355085bfad427c4361'')) =
     ''000d8f345b1a0e49ccce7d43369e9ce53a6fda0352739d7d142a7abd391bc0a1''"
  unfolding sha256_Sum256_def block4_blocks
  by (simp only: foldl_Cons foldl_Nil block4_compress1 block4_compress2) (simp add: word_bytes_def hex_EncodeToString_def)


lemma altered3_blocks:
  "sha256_blocks (map of_char ''32024-01-01T00:19:29Zpay 900060d725e17a61720cb885e44dadd48211c0e8ed0cb6c6abb0063cd80ff51b071'') =
     [[858927154, 875376689, 758133076, 808466993, 960115257, 1517314425, 540618800,
     808857700, 926037349, 825712950, 825700912, 1667381304, 895824948, 1684104292,
     876098097, 828584037], [946168880, 1667380835, 912351842, 808465971, 1667512368,
     1717974321, 1647327025, 2147483648, 0, 0, 0, 0, 0, 0, 0, 736]]"
  by (simp add: sha256_blocks_def sha256_pad_def replicate_numeral_Cons)

lemma altered3_compress1:
  "compress sha256_init
     [858927154, 875376689, 758133076, 808466993, 960115257, 1517314425, 540618800,
     808857700, 926037349, 825712950, 825700912, 1667381304, 895824948, 1684104292,
     876098097, 828584037] =
     [929759293, 2996385644, 766906557, 1998904578, 3555218431, 791108590, 3363417114,
     943363601]"
  by (simp add: sha_eval)

lemma altered3_compress2:
  "compress [929759293, 2996385644, 766906557, 1998904578, 3555218431, 791108590, 3363417114,
     943363601]
     [946168880, 1667380835, 912351842, 808465971, 1667512368, 1717974321, 1647327025,
     2147483648, 0, 0, 0, 0, 0, 0, 0, 736] =
     [1475026166, 754359187, 4263234683, 4138400367, 2358760221, 3497394154, 192465730,
     4041360399]"
  by (simp add: sha_eval)

lemma altered3_digest:
  "hex_EncodeToString (sha256_Sum256 (map of_char ''32024-01-01T00:19:29Zpay 900060d725e17a61720cb885e44dadd48211c0e8ed0cb6c6abb0063cd80ff51b071'')) =
     ''57eb1cf62cf69b93fe1bcc7bf6aafa6f8c97d31dd075ffea0b78cb42f0e2440f''"
  unfolding sha256_Sum256_def altered3_blocks
  by (simp only: foldl_Cons foldl_Nil altered3_compress1 altered3_compress2) (simp add: word_bytes_def hex_EncodeToString_def)


lemma fmt_d_0: "fmt_d 0 = ''0''"
  by (simp add: fmt_d_def digits.simps)

lemma fmt_d_1: "fmt_d 1 = ''1''"
  by (simp add: fmt_d_def digits.simps)

lemma fmt_d_7: "fmt_d 7 = ''7''"
  by (simp add: fmt_d_def digits.simps)

lemma fmt_d_2: "fmt_d 2 = ''2''"
  by (simp add: fmt_d_def digits.simps)

lemma fmt_d_3: "fmt_d 3 = ''3''"
  by (simp add: fmt_d_def digits.simps)

lemma fmt_d_4: "fmt_d 4 = ''4''"
  by (simp add: fmt_d_def digits.simps)

lemma calculateHash_genesis0:
  "calculateHash genesis0 = ''9f997a22f6f3e03fd77ef4b68bf58e59b0224dccb4b24e5aa074be50cec8b31d''"
proof -
  have "fmt_d (Index genesis0) @ Timestamp genesis0 @ Data genesis0 @ PrevHash genesis0 @
      fmt_d (Nonce genesis0) = ''02024-01-01T00:00:00Zgenesis0''"
    by (simp add: genesis0_def fmt_d_0)
  then show ?thesis
    unfolding calculateHash_def by (simp only: genesis0_digest)
qed

lemma calculateHash_block1:
  "calculateHash block1 = ''008e3541ab0076e91cc17c96059623427bc9385d086499bdcb37d5f247ae151f''"
proof -
  have "fmt_d (Index block1) @ Timestamp block1 @ Data block1 @ PrevHash block1 @
      fmt_d (Nonce block1) =
      ''12024-01-01T00:15:26Zhello9f997a22f6f3e03fd77ef4b68bf58e59b0224dccb4b24e5aa074be50cec8b31d1''"
    by (simp add: block1_def fmt_d_1)
  then show ?thesis
    unfolding calculateHash_def by (simp only: block1_digest)
qed

lemma calculateHash_altered1:
  "calculateHash (block1\<lparr>Data := ''hellp''\<rparr>) =
     ''8dae4ad6b15752691ebcd3fe2fa45ae5e1de609cdd7430cd919185635a57419f''"
proof -
  have "fmt_d (Index (block1\<lparr>Data := ''hellp''\<rparr>)) @ Timestamp (block1\<lparr>Data := ''hellp''\<rparr>) @
      Data (block1\<lparr>Data := ''hellp''\<rparr>) @ PrevHash (block1\<lparr>Data := ''hellp''\<rparr>) @
      fmt_d (Nonce (block1\<lparr>Data := ''hellp''\<rparr>)) =
      ''12024-01-01T00:15:26Zhellp9f997a22f6f3e03fd77ef4b68bf58e59b0224dccb4b24e5aa074be50cec8b31d1''"
    by (simp add: block1_def fmt_d_1)
  then show ?thesis
    unfolding calculateHash_def by (simp only: altered1_digest)
qed

lemma calculateHash_index7:
  "calculateHash (block1\<lparr>Index := 7\<rparr>) =
     ''28c58e3c12d0d9af4f6cc31c8f2e71eec481e5e4075bf082585be14fdc78841d''"
proof -
  have "fmt_d (Index (block1\<lparr>Index := 7\<rparr>)) @ Timestamp (block1\<lparr>Index := 7\<rparr>) @
      Data (block1\<lparr>Index := 7\<rparr>) @ PrevHash (block1\<lparr>Index := 7\<rparr>) @
      fmt_d (Nonce (block1\<lparr>Index := 7\<rparr>)) =
      ''72024-01-01T00:15:26Zhello9f997a22f6f3e03fd77ef4b68bf58e59b0224dccb4b24e5aa074be50cec8b31d1''"
    by (simp add: block1_def fmt_d_1 fmt_d_7)
  then show ?thesis
    unfolding calculateHash_def by (simp only: index7_digest)
qed

lemma calculateHash_block2:
  "calculateHash block2 =
     ''0060d725e17a61720cb885e44dadd48211c0e8ed0cb6c6abb0063cd80ff51b07''"
proof -
  have "fmt_d (Index block2) @ Timestamp block2 @
      Data block2 @ PrevHash block2 @
      fmt_d (Nonce block2) =
      ''22024-01-01T00:18:20Zworld008e3541ab0076e91cc17c96059623427bc9385d086499bdcb37d5f247ae151f1''"
    by (simp add: block2_def fmt_d_1 fmt_d_2)
  then show ?thesis
    unfolding calculateHash_def by (simp only: block2_digest)
qed

lemma calculateHash_block3:
  "calculateHash block3 =
     ''00edec20e31629c76e16bf90b4bb42b77aff82728a9543a355085bfad427c436''"
proof -
  have "fmt_d (Index block3) @ Timestamp block3 @
      Data block3 @ PrevHash block3 @
      fmt_d (Nonce block3) =
      ''32024-01-01T00:19:29Zpay 100060d725e17a61720cb885e44dadd48211c0e8ed0cb6c6abb0063cd80ff51b071''"
    by (simp add: block3_def fmt_d_1 fmt_d_3)
  then show ?thesis
    unfolding calculateHash_def by (simp only: block3_digest)
qed

lemma calculateHash_block4:
  "calculateHash block4 =
     ''000d8f345b1a0e49ccce7d43369e9ce53a6fda0352739d7d142a7abd391bc0a1''"
proof -
  have "fmt_d (Index block4) @ Timestamp block4 @
      Data block4 @ PrevHash block4 @
      fmt_d (Nonce block4) =
      ''42024-01-01T00:27:54Zdone00edec20e31629c76e16bf90b4bb42b77aff82728a9543a355085bfad427c4361''"
    by (simp add: block4_def fmt_d_1 fmt_d_4)
  then show ?thesis
    unfolding calculateHash_def by (simp only: block4_digest)
qed

lemma calculateHash_altered3:
  "calculateHash (block3\<lparr>Data := ''pay 90''\<rparr>) =
     ''57eb1cf62cf69b93fe1bcc7bf6aafa6f8c97d31dd075ffea0b78cb42f0e2440f''"
proof -
  have "fmt_d (Index (block3\<lparr>Data := ''pay 90''\<rparr>)) @ Timestamp (block3\<lparr>Data := ''pay 90''\<rparr>) @
      Data (block3\<lparr>Data := ''pay 90''\<rparr>) @ PrevHash (block3\<lparr>Data := ''pay 90''\<rparr>) @
      fmt_d (Nonce (block3\<lparr>Data := ''pay 90''\<rparr>)) =
      ''32024-01-01T00:19:29Zpay 900060d725e17a61720cb885e44dadd48211c0e8ed0cb6c6abb0063cd80ff51b071''"
    by (simp add: block3_def fmt_d_1 fmt_d_3)
  then show ?thesis
    unfolding calculateHash_def by (simp only: altered3_digest)
qed

subsection \<open>Admission of a block\<close>

lemma calculateHash_Hash_update [simp]: "calculateHash (b\<lparr>Hash := h\<rparr>) = calculateHash b"
  by (simp add: calculateHash_def)

lemma CreateGenesis_genesis0: "CreateGenesis ''2024-01-01T00:00:00Z'' [] = [genesis0]"
proof -
  have gen: "\<lparr>PubKey = [], Signature = [], Index = 0, Timestamp = ''2024-01-01T00:00:00Z'',
      Data = ''genesis'', PrevHash = [], Hash = [], Nonce = 0\<rparr> = genesis0\<lparr>Hash := []\<rparr>"
    by (simp add: genesis0_def)
  show ?thesis
    unfolding CreateGenesis_def Let_def gen
    by (simp add: calculateHash_genesis0) (simp add: genesis0_def)
qed

lemma calculateHash_sig_update [simp]:
  "calculateHash (b\<lparr>PubKey := p\<rparr>) = calculateHash b"
  "calculateHash (b\<lparr>Signature := s\<rparr>) = calculateHash b"
  by (simp_all add: calculateHash_def)

lemma AddBlock_cases:
  "AddBlock chain b = (True, chain @ [b]) \<or> AddBlock chain b = (False, chain)"
  by (simp add: AddBlock_def split: option.splits)



subsection \<open>Replacing the chain\<close>

lemma replace_loop_iff:
  "replace_loop i xs = (\<forall>j. i \<le> j \<and> j < length xs \<longrightarrow>
      PrevHash (xs ! j) = Hash (xs ! (j - 1)) \<and> calculateHash (xs ! j) = Hash (xs ! j))"
proof (induction i xs rule: replace_loop.induct)
  case (1 i newChain)
  show ?case
  proof (cases "i < length newChain")
    case False
    then show ?thesis by (subst replace_loop.simps) auto
  next
    case inside: True
    show ?thesis
    proof (cases "PrevHash (newChain ! i) \<noteq> Hash (newChain ! (i - 1)) \<or>
        calculateHash (newChain ! i) \<noteq> Hash (newChain ! i)")
      case True
      with inside show ?thesis
        by (subst replace_loop.simps) (auto simp: Let_def)
    next
      case False
      with inside 1 have "replace_loop i newChain = (\<forall>j. i + 1 \<le> j \<and> j < length newChain \<longrightarrow>
          PrevHash (newChain ! j) = Hash (newChain ! (j - 1)) \<and>
          calculateHash (newChain ! j) = Hash (newChain ! j))"
        by (subst replace_loop.simps) (simp add: Let_def)
      also have "\<dots> = (\<forall>j. i \<le> j \<and> j < length newChain \<longrightarrow>
          PrevHash (newChain ! j) = Hash (newChain ! (j - 1)) \<and>
          calculateHash (newChain ! j) = Hash (newChain ! j))"
        using False by (metis Suc_eq_plus1 Suc_leI le_eq_less_or_eq Suc_le_eq)
      finally show ?thesis .
    qed
  qed
qed

lemma ReplaceChain_installs_iff:
  "(ReplaceChain chain newChain = (True, newChain)) =
     (length chain < length newChain \<and>
      (\<forall>j. 0 < j \<and> j < length newChain \<longrightarrow>
         PrevHash (newChain ! j) = Hash (newChain ! (j - 1)) \<and>
         calculateHash (newChain ! j) = Hash (newChain ! j)))"
  by (auto simp: ReplaceChain_def replace_loop_iff Suc_le_eq)

lemma ReplaceChain_cases:
  "ReplaceChain chain newChain = (True, newChain) \<or> ReplaceChain chain newChain = (False, chain)"
  by (simp add: ReplaceChain_def)

text \<open>
  C2.  \<^verbatim>\<open>ReplaceChain\<close> compares lengths, previous hashes and recomputed hashes, and
  never the indices: over the genesis chain it installs a candidate whose second block
  carries index 7.
\<close>

theorem ReplaceChain_index_gap:
  "ReplaceChain [genesis0]
      [genesis0, block1\<lparr>Index := 7,
         Hash := ''28c58e3c12d0d9af4f6cc31c8f2e71eec481e5e4075bf082585be14fdc78841d''\<rparr>] =
     (True, [genesis0, block1\<lparr>Index := 7,
         Hash := ''28c58e3c12d0d9af4f6cc31c8f2e71eec481e5e4075bf082585be14fdc78841d''\<rparr>]) \<and>
   Index (block1\<lparr>Index := 7\<rparr>) \<noteq> Index genesis0 + 1"
proof -
  have "\<And>j. 0 < j \<Longrightarrow> j < 2 \<Longrightarrow> j = (1::nat)" by arith
  then show ?thesis
  unfolding ReplaceChain_installs_iff
  by (auto simp: calculateHash_index7) (simp_all add: block1_def genesis0_def)
qed

subsection \<open>Loading a persisted chain\<close>

lemma load_loop_first_failure:
  assumes "i0 \<le> i" "i < length arr"
    and "\<forall>j. i0 \<le> j \<and> j < i \<longrightarrow>
          PrevHash (arr ! j) = Hash (arr ! (j - 1)) \<and> calculateHash (arr ! j) = Hash (arr ! j)"
    and "PrevHash (arr ! i) \<noteq> Hash (arr ! (i - 1)) \<or> calculateHash (arr ! i) \<noteq> Hash (arr ! i)"
  shows "load_loop i0 arr = Some (Errorf (''invalid chain at index '' @ digits i))"
  using assms
proof (induction i0 arr rule: load_loop.induct)
  case (1 k arr)
  show ?case
  proof (cases "k = i")
    case True
    with 1 show ?thesis
      by (subst load_loop.simps) (auto simp: Let_def)
  next
    case False
    with 1 have before: "k < i" "k < length arr" by auto
    with 1 have ok: "PrevHash (arr ! k) = Hash (arr ! (k - 1)) \<and> calculateHash (arr ! k) = Hash (arr ! k)"
      by auto
    have "load_loop (k + 1) arr = Some (Errorf (''invalid chain at index '' @ digits i))"
      using 1 before ok by (intro "1.IH") auto
    with before ok show ?thesis
      by (subst load_loop.simps) (simp add: Let_def)
  qed
qed

lemma load_loop_None_iff:
  "(load_loop i xs = None) = (\<forall>j. i \<le> j \<and> j < length xs \<longrightarrow>
      PrevHash (xs ! j) = Hash (xs ! (j - 1)) \<and> calculateHash (xs ! j) = Hash (xs ! j))"
proof (induction i xs rule: load_loop.induct)
  case (1 i arr)
  show ?case
  proof (cases "i < length arr")
    case False
    then show ?thesis by (subst load_loop.simps) auto
  next
    case inside: True
    show ?thesis
    proof (cases "PrevHash (arr ! i) \<noteq> Hash (arr ! (i - 1)) \<or>
        calculateHash (arr ! i) \<noteq> Hash (arr ! i)")
      case True
      with inside show ?thesis
        by (subst load_loop.simps) (auto simp: Let_def)
    next
      case False
      with inside 1 have "(load_loop i arr = None) = (\<forall>j. i + 1 \<le> j \<and> j < length arr \<longrightarrow>
          PrevHash (arr ! j) = Hash (arr ! (j - 1)) \<and>
          calculateHash (arr ! j) = Hash (arr ! j))"
        by (subst load_loop.simps) (simp add: Let_def)
      also have "\<dots> = (\<forall>j. i \<le> j \<and> j < length arr \<longrightarrow>
          PrevHash (arr ! j) = Hash (arr ! (j - 1)) \<and>
          calculateHash (arr ! j) = Hash (arr ! j))"
        using False by (metis Suc_eq_plus1 Suc_leI le_eq_less_or_eq Suc_le_eq)
      finally show ?thesis .
    qed
  qed
qed


lemma chain5_links:
  assumes "0 < j" "j < 5"
  shows "PrevHash ([genesis0, block1, block2, block3, block4] ! j) =
           Hash ([genesis0, block1, block2, block3, block4] ! (j - 1)) \<and>
         calculateHash ([genesis0, block1, block2, block3, block4] ! j) =
           Hash ([genesis0, block1, block2, block3, block4] ! j)"
proof -
  from assms have "j = 1 \<or> j = 2 \<or> j = 3 \<or> j = 4" by arith
  moreover have "PrevHash block1 = Hash genesis0" "PrevHash block2 = Hash block1"
    "PrevHash block3 = Hash block2" "PrevHash block4 = Hash block3"
    by (simp_all add: genesis0_def block1_def block2_def block3_def block4_def)
  moreover have "calculateHash block1 = Hash block1" "calculateHash block2 = Hash block2"
    "calculateHash block3 = Hash block3" "calculateHash block4 = Hash block4"
    by (simp_all add: calculateHash_block1 calculateHash_block2 calculateHash_block3
        calculateHash_block4)
      (simp_all add: block1_def block2_def block3_def block4_def)
  ultimately show ?thesis by auto
qed


text \<open>Every chain of a node is non-empty, and each block after the first links to its
  predecessor and carries its own hash; so does every chain that a node persists.\<close>

lemma node_chain_links:
  "node_chain chain \<Longrightarrow>
     chain \<noteq> [] \<and>
     (\<forall>j. 0 < j \<and> j < length chain \<longrightarrow>
        PrevHash (chain ! j) = Hash (chain ! (j - 1)) \<and>
        calculateHash (chain ! j) = Hash (chain ! j))"
proof (induction rule: node_chain.induct)
  case (genesis now)
  show ?case by (simp add: CreateGenesis_def Let_def)
next
  case (add chain b ok chain')
  show ?case
  proof (cases ok)
    case False
    with add AddBlock_cases [of chain b] show ?thesis by auto
  next
    case True
    with add AddBlock_cases [of chain b] have new: "chain' = chain @ [b]" by auto
    from add True have checks: "PrevHash b = Hash (last chain) \<and> calculateHash b = Hash b"
      by (auto simp: AddBlock_def Latest_nonempty split: if_splits)
    have "PrevHash (chain' ! j) = Hash (chain' ! (j - 1)) \<and>
        calculateHash (chain' ! j) = Hash (chain' ! j)" if "0 < j" "j < length chain'" for j
    proof (cases "j < length chain")
      case True
      with that have "j - 1 < length chain" by arith
      with True add.IH that new show ?thesis by (simp add: nth_append)
    next
      case False
      with that new have j: "j = length chain" by simp
      with add.IH have "j - 1 < length chain" by simp
      with j checks add.IH new show ?thesis by (simp add: nth_append last_conv_nth)
    qed
    with new show ?thesis by simp
  qed
next
  case (replace chain newChain ok chain')
  show ?case
  proof (cases "ReplaceChain chain newChain = (True, newChain)")
    case True
    with replace show ?thesis
      by (auto simp: ReplaceChain_installs_iff)
  next
    case False
    with replace ReplaceChain_cases [of chain newChain] show ?thesis by auto
  qed
next
  case (load chain f err chain')
  then show ?case
    by (auto simp: LoadFromFile_def load_loop_None_iff Suc_le_eq
        split: file_content.splits if_splits option.splits)
qed

subsection \<open>Proof of work\<close>

lemma mine_sealed:
  assumes "mine b = Some b'"
  shows "calculateHash b' = Hash b' \<and> take difficulty (Hash b') = stringsRepeat ''0'' difficulty \<and>
     Index b' = Index b \<and> PrevHash b' = PrevHash b \<and> Data b' = Data b \<and>
     Timestamp b' = Timestamp b"
proof -
  define sealed where "sealed = (\<lambda>(b::Block) (b'::Block).
     calculateHash b' = Hash b' \<and> take difficulty (Hash b') = stringsRepeat ''0'' difficulty \<and>
     Index b' = Index b \<and> PrevHash b' = PrevHash b \<and> Data b' = Data b \<and>
     Timestamp b' = Timestamp b)"
  have "sealed b b'"
  proof (rule mine.raw_induct [where P = sealed, OF _ assms])
    fix loop :: "Block \<Rightarrow> Block option" and c c'
    assume IH: "\<And>x y. loop x = Some y \<Longrightarrow> sealed x y"
      and step: "(let b1 = c\<lparr>Nonce := Nonce c + 1\<rparr>; h = calculateHash b1
          in if take difficulty h = stringsRepeat ''0'' difficulty
             then Some (b1\<lparr>Hash := h\<rparr>) else loop b1) = Some c'"
    show "sealed c c'"
    proof (cases "take difficulty (calculateHash (c\<lparr>Nonce := Nonce c + 1\<rparr>)) =
        stringsRepeat ''0'' difficulty")
      case True
      with step have "c' = c\<lparr>Nonce := Nonce c + 1,
          Hash := calculateHash (c\<lparr>Nonce := Nonce c + 1\<rparr>)\<rparr>"
        by (simp add: Let_def)
      with True show ?thesis by (simp add: sealed_def)
    next
      case False
      with step have "loop (c\<lparr>Nonce := Nonce c + 1\<rparr>) = Some c'"
        by (simp add: Let_def)
      from IH [OF this] show ?thesis by (simp add: sealed_def)
    qed
  qed
  then show ?thesis by (simp add: sealed_def)
qed


lemma GenerateBlock_hello:
  "GenerateBlock [genesis0] ''2024-01-01T00:15:26Z'' ''hello'' = Some block1"
proof -
  have start: "\<lparr>PubKey = [], Signature = [], Index = Index genesis0 + 1,
      Timestamp = ''2024-01-01T00:15:26Z'', Data = ''hello'', PrevHash = Hash genesis0,
      Hash = [], Nonce = 0\<rparr>\<lparr>Nonce := 0 + 1\<rparr> = block1\<lparr>Hash := []\<rparr>"
    by (simp add: block1_def genesis0_def)
  have "mine \<lparr>PubKey = [], Signature = [], Index = Index genesis0 + 1,
      Timestamp = ''2024-01-01T00:15:26Z'', Data = ''hello'', PrevHash = Hash genesis0,
      Hash = [], Nonce = 0\<rparr> = Some block1"
    apply (subst mine.simps)
    apply (simp only: Let_def Block.select_convs start calculateHash_Hash_update calculateHash_block1)
    apply (simp add: difficulty_def numeral_2_eq_2 block1_def)
    done
  then show ?thesis
    by (simp add: GenerateBlock_def Latest_def)
qed



subsection \<open>The empty chain\<close>


section \<open>Properties of the transport\<close>

text \<open>
  C8.  A block that arrives in a \<^verbatim>\<open>block\<close> message changes the chain only by being
  appended, and only when its public key and signature decode and the signature verifies
  under that key over the block's recomputed hash; a block whose signature or public key
  is empty leaves the chain unchanged.
\<close>

theorem handleConn_block_needs_signature:
  "(handleConn_block ed chain b = Inr (chain', effs) \<and> chain' \<noteq> chain \<longrightarrow>
      chain' = chain @ [b] \<and>
      (\<exists>pub sig. hex_DecodeString (PubKey b) = Some pub \<and>
                 hex_DecodeString (Signature b) = Some sig \<and>
                 Verify ed pub (map of_char (calculateHash b)) sig)) \<and>
   (Signature b = [] \<or> PubKey b = [] \<longrightarrow> handleConn_block ed chain b = Inr (chain, []))"
proof (intro conjI impI)
  assume "Signature b = [] \<or> PubKey b = []"
  then show "handleConn_block ed chain b = Inr (chain, [])"
    by (auto simp: handleConn_block_def VerifyBlockSignature_def)
next
  assume run: "handleConn_block ed chain b = Inr (chain', effs) \<and> chain' \<noteq> chain"
  then have verified: "VerifyBlockSignature ed b = Inr True"
    using AddBlock_cases [of chain b]
    by (auto simp: handleConn_block_def split: sum.splits if_splits)
  with run show "chain' = chain @ [b]"
    using AddBlock_cases [of chain b] by (auto simp: handleConn_block_def)
  from verified show "\<exists>pub sig. hex_DecodeString (PubKey b) = Some pub \<and>
      hex_DecodeString (Signature b) = Some sig \<and>
      Verify ed pub (map of_char (calculateHash b)) sig"
    by (auto simp: VerifyBlockSignature_def ed25519_Verify_def split: if_splits option.splits)
qed

lemma VerifyBlockSignature_signed1: "VerifyBlockSignature stand_in signed1 = Inr True"
  by (simp add: VerifyBlockSignature_def signed1_def fromHexChar_def ed25519_Verify_def
      stand_in_def)

theorem handleConn_block_needs_signature_witness:
  "handleConn_block stand_in [genesis0] signed1 =
     Inr ([genesis0, signed1], [PostBlockToAI signed1, BroadcastBlock signed1]) \<and>
   [genesis0, signed1] \<noteq> [genesis0] \<and>
   Signature block1 = [] \<and>
   handleConn_block stand_in [genesis0] block1 = Inr ([genesis0], [])"
proof -
  have "calculateHash signed1 = Hash signed1"
    by (simp add: signed1_def calculateHash_block1) (simp add: block1_def)
  then have "AddBlock [genesis0] signed1 = (True, [genesis0, signed1])"
    by (simp add: AddBlock_def Latest_def) (simp add: signed1_def block1_def genesis0_def)
  then have run: "handleConn_block stand_in [genesis0] signed1 =
      Inr ([genesis0, signed1], [PostBlockToAI signed1, BroadcastBlock signed1])"
    by (simp add: handleConn_block_def VerifyBlockSignature_signed1)
  have unsigned: "Signature block1 = []"
    by (simp add: block1_def)
  from handleConn_block_needs_signature [of stand_in "[genesis0]" signed1 "[genesis0, signed1]"
      "[PostBlockToAI signed1, BroadcastBlock signed1]"]
    handleConn_block_needs_signature [of stand_in "[genesis0]" block1] run unsigned
  show ?thesis by simp
qed



section \<open>Properties of the agreement engine\<close>

lemma len_fmupd: "len (fmupd k v m) = (if k |\<in>| fmdom m then len m else Suc (len m))"
  by (simp add: len_def fcard_finsert_if)

lemma len_fmempty [simp]: "len fmempty = 0"
  by (simp add: len_def)

lemma votes_at_fmupd:
  "votes_at (fmupd s vs table) s' = (if s = s' then vs else votes_at table s')"
  by (simp add: votes_at_def)

lemma votes_at_fmempty [simp]: "votes_at fmempty s = fmempty"
  by (simp add: votes_at_def)

lemma prepare_step:
  "HandlePBFTPrepare ed n st (Some pm) = (st', rsp, effs) \<Longrightarrow>
     prepares st' = fmupd (pSeq pm) (fmupd (pVoter pm) pm (votes_at (prepares st) (pSeq pm))) (prepares st) \<and>
     commits st' = commits st \<and>
     (effs \<noteq> [] \<longrightarrow> (2 * length (getValidatorList n)) div 3 + 1 \<le> len (votes_at (prepares st') (pSeq pm)))"
  by (auto simp: HandlePBFTPrepare_def Let_def split: if_splits)

lemma commit_step:
  "HandlePBFTCommit n st (Some cm) = (st', rsp, effs) \<Longrightarrow>
     commits st' = fmupd (cSeq cm) (fmupd (cVoter cm) cm (votes_at (commits st) (cSeq cm))) (commits st) \<and>
     prepares st' = prepares st \<and>
     (effs \<noteq> [] \<longrightarrow> (2 * length (getValidatorList n)) div 3 + 1 \<le> len (votes_at (commits st') (cSeq cm)))"
  by (auto simp: HandlePBFTCommit_def Let_def split: if_splits)

lemmas pbft_eval = HandlePBFTPrepare_def HandlePBFTCommit_def after_prepares_def
  after_commits_def roster4_def solo_def pbft0_def prepare_vote_def commit_vote_def Let_def
  len_fmupd votes_at_fmupd getValidatorList_def getPeerList_def signMessage_def vote_string_def






text \<open>
  C5.  The handlers never verify a vote's signature: with a roster of one validator, a
  Prepare vote without signature is recorded and releases the Commit, and a Commit vote
  without signature commits the sequence.
\<close>

theorem unsigned_votes_are_counted:
  "pSig (prepare_vote ''a'' ''h1'') = [] \<and>
   HandlePBFTPrepare ed solo pbft0 (Some (prepare_vote ''a'' ''h1'')) =
     (\<lparr>prepares = fmupd 1 (fmupd ''a'' (prepare_vote ''a'' ''h1'') fmempty) fmempty,
       commits = fmempty\<rparr>,
      Ok_true,
      [PostCommit (commit_vote '':8080'' ''h1'')]) \<and>
   cSig (commit_vote ''a'' ''h1'') = [] \<and>
   HandlePBFTCommit solo pbft0 (Some (commit_vote ''a'' ''h1'')) =
     (\<lparr>prepares = fmempty,
       commits = fmupd 1 (fmupd ''a'' (commit_vote ''a'' ''h1'') fmempty) fmempty\<rparr>,
      Ok_true, [BridgeCommitBlock ''h1'', LogCommitted 1 1 1])"
  by (simp add: pbft_eval)

text \<open>The vote endpoint \<^verbatim>\<open>HandleVote\<close>, in contrast, stores a vote only when its
  signature verifies under the voter's key.\<close>

lemma HandleVote_stores_verified_votes_only:
  "HandleVote ed n votesMap (Some v) = Inr (votesMap', rsp, effs) \<Longrightarrow> votesMap' \<noteq> votesMap \<Longrightarrow>
     \<exists>pubb sigb. hex_DecodeString (vVoterPub v) = Some pubb \<and>
       hex_DecodeString (vSignature v) = Some sigb \<and>
       Verify ed pubb (map of_char (vBlockHash v @ '':'' @ fmt_d (vRound v))) sigb"
  by (auto simp: HandleVote_def ed25519_Verify_def Let_def split: option.splits sum.splits if_splits)

end
